theory Spec2Isabelle
  imports Complex_Main
begin

section \<open>Strings\<close>

text \<open>
  A Python \<open>str\<close> is a sequence of Unicode code points, so text is a list of code
  points here. \<open>ascii\<close> embeds an ASCII literal.
\<close>

type_synonym pystr = "nat list"

definition ascii :: "string \<Rightarrow> pystr" where
  "ascii s = map of_char s"

text \<open>
  \<open>str.isspace\<close> of one code point: the characters CPython treats as whitespace
  (tab to carriage return, the four separators U+001C to U+001F, space, U+0085, U+00A0,
  U+1680, U+2000 to U+200A, U+2028, U+2029, U+202F, U+205F, U+3000).
\<close>

definition isspace :: "nat \<Rightarrow> bool" where
  "isspace c \<longleftrightarrow>
     (9 \<le> c \<and> c \<le> 13) \<or> (28 \<le> c \<and> c \<le> 32) \<or> c = 133 \<or> c = 160 \<or> c = 5760 \<or>
     (8192 \<le> c \<and> c \<le> 8202) \<or> c = 8232 \<or> c = 8233 \<or> c = 8239 \<or> c = 8287 \<or> c = 12288"

text \<open>\<open>str.strip()\<close> without arguments: leading and trailing whitespace removed.\<close>

definition strip :: "pystr \<Rightarrow> pystr" where
  "strip s = rev (dropWhile isspace (rev (dropWhile isspace s)))"

text \<open>\<open>re.search\<close> of a literal: does \<open>sub\<close> occur somewhere in the text.\<close>

fun starts_with :: "pystr \<Rightarrow> pystr \<Rightarrow> bool" where
  "starts_with [] s = True"
| "starts_with (p # ps) [] = False"
| "starts_with (p # ps) (c # cs) = (p = c \<and> starts_with ps cs)"

fun contains :: "pystr \<Rightarrow> pystr \<Rightarrow> bool" where
  "contains sub [] = starts_with sub []"
| "contains sub (c # cs) = (starts_with sub (c # cs) \<or> contains sub cs)"

section \<open>Errors\<close>

text \<open>
  Every exception the modelled code raises or lets through is a value. The message of a
  \<open>ValueError\<close> is kept because the assistant runnable searches it.
\<close>

datatype chain_output = ChainOutput (output_text: pystr) (prompt_tokens: nat) (completion_tokens: nat)

datatype error =
    AssertionError pystr
  | GenerationError pystr
  | GenerationCancelled chain_output
  | MessageHandlerException pystr
  | BadRequestError "pystr option"
  | ValueError pystr
  | KeyError pystr
  | IndexError
  | AttributeError
  | Unmodelled
  | OtherError pystr

section \<open>\<open>str.format\<close> with keyword arguments\<close>

text \<open>
  The templates of the repository (input formatter, assistant instructions, survey
  confirmation text, the system prompt handed to the prompt template) are expanded by
  Python's format-string machinery in one pass from left to right: \<open>{{\<close> and
  \<open>}}\<close> are literal braces, \<open>{name}\<close> is replaced by the keyword argument
  \<open>name\<close>, a name that is not an argument raises \<open>KeyError\<close>, an empty or
  numeric name asks for a positional argument and raises \<open>IndexError\<close> (none is ever
  passed), and an unbalanced brace raises \<open>ValueError\<close>. Fields with a conversion,
  a format specification, attribute or index access (one of \<open>! : . [ ]\<close> or a nested
  brace in the field) are outside the model and yield \<open>Unmodelled\<close>.
\<close>

definition lbrace :: nat where "lbrace = 123"
definition rbrace :: nat where "rbrace = 125"

definition is_digit :: "nat \<Rightarrow> bool" where
  "is_digit c \<longleftrightarrow> 48 \<le> c \<and> c \<le> 57"

definition field_special :: "nat \<Rightarrow> bool" where
  "field_special c \<longleftrightarrow> c = 33 \<or> c = 58 \<or> c = 46 \<or> c = 91 \<or> c = 93 \<or> c = 123"

definition get_field :: "(pystr \<times> pystr) list \<Rightarrow> pystr \<Rightarrow> error + pystr" where
  "get_field kwargs name =
     (if list_ex field_special name then Inl Unmodelled
      else if list_all is_digit name then Inl IndexError
      else (case map_of kwargs name of None \<Rightarrow> Inl (KeyError name) | Some v \<Rightarrow> Inr v))"

definition prepend :: "pystr \<Rightarrow> error + pystr \<Rightarrow> error + pystr" where
  "prepend v r = (case r of Inl e \<Rightarrow> Inl e | Inr s \<Rightarrow> Inr (v @ s))"

text \<open>
  \<open>format_from kwargs field cs\<close> scans the rest \<open>cs\<close> of the template; \<open>field\<close> is
  \<open>None\<close> in literal text and \<open>Some name\<close> inside a replacement field whose name
  read so far is \<open>name\<close>.
\<close>

fun format_from :: "(pystr \<times> pystr) list \<Rightarrow> pystr option \<Rightarrow> pystr \<Rightarrow> error + pystr" where
  "format_from kwargs None [] = Inr []"
| "format_from kwargs (Some name) [] = Inl (ValueError (ascii ''expected '}' before end of string''))"
| "format_from kwargs (Some name) (c # cs) =
     (if c = rbrace then
        (case get_field kwargs name of
           Inl e \<Rightarrow> Inl e
         | Inr v \<Rightarrow> prepend v (format_from kwargs None cs))
      else format_from kwargs (Some (name @ [c])) cs)"
| "format_from kwargs None [c] =
     (if c = lbrace then Inl (ValueError (ascii ''Single '{' encountered in format string''))
      else if c = rbrace then Inl (ValueError (ascii ''Single '}' encountered in format string''))
      else Inr [c])"
| "format_from kwargs None (c # d # cs) =
     (if c = lbrace then
        (if d = lbrace then prepend [lbrace] (format_from kwargs None cs)
         else format_from kwargs (Some []) (d # cs))
      else if c = rbrace then
        (if d = rbrace then prepend [rbrace] (format_from kwargs None cs)
         else Inl (ValueError (ascii ''Single '}' encountered in format string'')))
      else prepend [c] (format_from kwargs None (d # cs)))"

definition py_format :: "pystr \<Rightarrow> (pystr \<times> pystr) list \<Rightarrow> error + pystr" where
  "py_format template kwargs = format_from kwargs None template"

section \<open>Consent token\<close>

definition USER_CONSENT_TEXT :: pystr where
  "USER_CONSENT_TEXT = ascii ''1''"

text \<open>\<open>ChannelBase._user_gave_consent\<close>, as a function of the user query.\<close>

definition user_gave_consent :: "pystr \<Rightarrow> bool" where
  "user_gave_consent user_query \<longleftrightarrow> strip user_query = USER_CONSENT_TEXT"


section \<open>Data model\<close>

datatype channel_platform = TELEGRAM | WEB | WHATSAPP | FACEBOOK | API | SLACK

text \<open>
  \<open>SessionStatus\<close>: the four states the channel code names, and \<open>COMPLETE\<close> for the
  terminal state of a session that is over.
\<close>

datatype session_status = SETUP | PENDING | PENDING_PRE_SURVEY | ACTIVE | COMPLETE

datatype chat_message_type = HUMAN | AI | SYSTEM

datatype voice_response_behaviours = ALWAYS | RECIPROCAL | NEVER

type_synonym chat_message = "chat_message_type \<times> pystr"

text \<open>A \<open>Chat\<close>: its messages in insertion order and the thread id of its metadata.\<close>

record chat =
  messages :: "chat_message list"
  openai_thread_id :: "pystr option"

text \<open>
  A \<open>Participant\<close>. \<open>participant_data\<close> is what \<open>get_participant_data\<close> of a
  session of this participant yields, already rendered as text: \<open>None\<close> when there is
  no data (or it is empty, which Python's \<open>or\<close> treats the same way).
\<close>

record participant =
  participant_id :: nat
  participant_identifier :: pystr
  participant_team :: nat
  user :: "nat option"
  participant_data :: "pystr option"

text \<open>
  An \<open>ExperimentChannel\<close>. \<open>RESET_COMMAND\<close> is the constant of that class, which
  is declared outside the files at hand, so it is a parameter here.
\<close>

record experiment_channel =
  channel_id :: nat
  platform :: channel_platform
  RESET_COMMAND :: pystr

record consent_form =
  consent_text :: pystr
  confirmation_text :: pystr

text \<open>A pre-survey; \<open>get_link\<close> is the link it produces for a session (by its id).\<close>

record survey =
  survey_confirmation_text :: pystr
  get_link :: "nat \<Rightarrow> pystr"

text \<open>
  The hosted assistant of an experiment: its instructions template and the polling
  interval of the assistant client, in milliseconds.
\<close>

record assistant =
  instructions :: pystr
  assistant_check_every_ms :: real

record Experiment =
  experiment_id :: nat
  experiment_team :: nat
  assistant :: "assistant option"
  llm :: pystr
  llm_provider :: "nat option"
  tools_enabled :: bool
  prompt_text :: pystr
  source_material :: "pystr option"
  input_formatter :: pystr
  conversational_consent_enabled :: bool
  consent_form :: consent_form
  pre_survey :: "survey option"
  seed_message :: pystr
  synthetic_voice :: "nat option"
  voice_response_behaviour :: voice_response_behaviours

record experiment_session =
  session_experiment :: nat
  session_participant :: participant
  status :: session_status
  ended_at :: "nat option"
  session_channel :: "experiment_channel option"
  session_chat :: chat
  no_activity_ping_count :: nat

section \<open>The runnable factory\<close>

datatype runnable_kind =
  AssistantExperimentRunnable | AgentExperimentRunnable | SimpleExperimentRunnable

text \<open>\<open>create_experiment_runnable\<close>: the two assertions are branches of the model.\<close>

definition create_experiment_runnable :: "Experiment \<Rightarrow> error + runnable_kind" where
  "create_experiment_runnable e =
     (if assistant e \<noteq> None then Inr AssistantExperimentRunnable
      else if llm e = [] then Inl (AssertionError (ascii ''Experiment must have an LLM model''))
      else if llm_provider e = None then
        Inl (AssertionError (ascii ''Experiment must have an LLM provider''))
      else if tools_enabled e then Inr AgentExperimentRunnable
      else Inr SimpleExperimentRunnable)"

section \<open>Runnables: what they share\<close>

text \<open>The recognised keys of \<open>config["configurable"]\<close> (tagging is not modelled).\<close>

record runnable_config =
  save_input_to_history :: bool
  save_output_to_history :: bool

definition save_message_to_history :: "chat \<Rightarrow> pystr \<Rightarrow> chat_message_type \<Rightarrow> chat" where
  "save_message_to_history c message type = c\<lparr>messages := messages c @ [(type, message)]\<rparr>"

text \<open>
  \<open>format_input\<close>: the input formatter, when set, is applied to the value under the
  runnable's input key.
\<close>

definition format_input :: "Experiment \<Rightarrow> pystr \<Rightarrow> error + pystr" where
  "format_input e input =
     (if input_formatter e \<noteq> [] then py_format (input_formatter e) [(ascii ''input'', input)]
      else Inr input)"

definition is_unauthorized_participant :: "experiment_session \<Rightarrow> error + bool" where
  "is_unauthorized_participant s =
     (case session_channel s of
        None \<Rightarrow> Inl AttributeError
      | Some ch \<Rightarrow> Inr (platform ch = WEB \<and> user (session_participant s) = None))"

definition get_participant_data :: "experiment_session \<Rightarrow> error + pystr" where
  "get_participant_data s =
     (case is_unauthorized_participant s of
        Inl e \<Rightarrow> Inl e
      | Inr unauthorized \<Rightarrow>
          if unauthorized then Inr []
          else Inr (case participant_data (session_participant s) of None \<Rightarrow> [] | Some d \<Rightarrow> d))"

section \<open>In-process runnables: cancellation polling\<close>

text \<open>
  The fields of \<open>ExperimentRunnable\<close> that the cancellation check reads and writes.
  \<open>flag_reads\<close> counts the calls of \<open>refresh_from_db\<close>, so that a read of the stored
  flag is visible in the state.
\<close>

record cancel_state =
  cancelled :: bool
  last_cancel_check :: "real option"
  check_every_ms :: int
  flag_reads :: nat

definition new_cancel_state :: cancel_state where
  "new_cancel_state =
     \<lparr>cancelled = False, last_cancel_check = None, check_every_ms = 1000, flag_reads = 0\<rparr>"

text \<open>
  \<open>_chat_is_cancelled\<close>. \<open>now\<close> is what \<open>time.time()\<close> returns, in seconds (both
  readings of one call are taken at the same instant), and \<open>stored\<close> is the value of
  \<open>metadata["cancelled"]\<close> in the database at that moment. A \<open>None\<close> or zero
  \<open>last_cancel_check\<close> and a zero \<open>check_every_ms\<close> are false in Python.
\<close>

definition chat_is_cancelled :: "cancel_state \<Rightarrow> real \<Rightarrow> bool \<Rightarrow> bool \<times> cancel_state" where
  "chat_is_cancelled r now stored =
     (if cancelled r then (True, r)
      else if (case last_cancel_check r of
                 None \<Rightarrow> False
               | Some t \<Rightarrow> t \<noteq> 0 \<and> check_every_ms r \<noteq> 0 \<and> t + real_of_int (check_every_ms r) > now)
      then (False, r)
      else (stored,
            r\<lparr>last_cancel_check := Some now, flag_reads := Suc (flag_reads r),
              cancelled := stored\<rparr>))"

text \<open>
  One token of the stream, with the clock and the stored flag at the moment the check
  after it runs. \<open>token\<close> is the text \<open>_parse_output\<close> extracts from the chunk.
\<close>

record tick =
  token :: pystr
  time_now :: real
  stored_cancelled :: bool

text \<open>The loop of \<open>_get_output_check_cancellation\<close> over the tokens of the stream.\<close>

fun consume_stream :: "cancel_state \<Rightarrow> pystr \<Rightarrow> tick list \<Rightarrow> pystr \<times> cancel_state" where
  "consume_stream r out [] = (out, r)"
| "consume_stream r out (t # ts) =
     (case chat_is_cancelled r (time_now t) (stored_cancelled t) of
        (True, r') \<Rightarrow> (out @ token t, r')
      | (False, r') \<Rightarrow> consume_stream r' (out @ token t) ts)"

section \<open>In-process runnables: the prompt and the invocation\<close>

text \<open>What the chat model receives: system message, history, human message.\<close>

record llm_request =
  system_message :: pystr
  history_messages :: "chat_message list"
  human_message :: pystr

definition get_source_material :: "Experiment \<Rightarrow> pystr" where
  "get_source_material e = (case source_material e of None \<Rightarrow> [] | Some m \<Rightarrow> m)"

text \<open>
  The system template of \<open>prompt\<close>: the prompt text and the line with the current date
  and time (\<open>current_datetime\<close> is what \<open>pretty_date\<close> returns).
\<close>

definition system_template :: "Experiment \<Rightarrow> pystr \<Rightarrow> pystr" where
  "system_template e current_datetime =
     prompt_text e @ ascii [CHR 0x0A] @ ascii ''The current datetime is '' @ current_datetime @
     ascii '' (timezone preserved)''"

text \<open>
  \<open>_build_chain\<close> up to the chat model: the variables \<open>source_material\<close> and
  \<open>participant_data\<close> are assigned, the input is formatted, and the prompt template
  expands the system template and the human template \<open>{input}\<close> with them. \<open>memory\<close>
  is the history that \<open>_populate_memory\<close> loaded.
\<close>

definition build_prompt ::
  "Experiment \<Rightarrow> experiment_session \<Rightarrow> pystr \<Rightarrow> chat_message list \<Rightarrow> pystr \<Rightarrow> error + llm_request"
where
  "build_prompt e s current_datetime memory input =
     (case get_participant_data s of
        Inl err \<Rightarrow> Inl err
      | Inr pd \<Rightarrow>
          (case format_input e input of
             Inl err \<Rightarrow> Inl err
           | Inr formatted \<Rightarrow>
               (case py_format (system_template e current_datetime)
                       [(ascii ''input'', formatted),
                        (ascii ''source_material'', get_source_material e),
                        (ascii ''participant_data'', pd)] of
                  Inl err \<Rightarrow> Inl err
                | Inr system \<Rightarrow>
                    Inr \<lparr>system_message = system, history_messages = memory,
                         human_message = formatted\<rparr>)))"

text \<open>
  What the provider does with one call: the tokens it streams and the token counts its
  callback reports.
\<close>

record llm_response =
  stream :: "tick list"
  callback_prompt_tokens :: nat
  callback_completion_tokens :: nat

text \<open>
  \<open>ExperimentRunnable.invoke\<close>. \<open>compress\<close> is \<open>compress_chat_history\<close>. The result
  is the value or exception, the chat, the runnable's cancellation fields and the request
  sent to the model, if one was.
\<close>

definition experiment_runnable_invoke ::
  "(chat_message list \<Rightarrow> chat_message list) \<Rightarrow> Experiment \<Rightarrow> experiment_session \<Rightarrow> pystr \<Rightarrow>
   llm_response \<Rightarrow> cancel_state \<Rightarrow> runnable_config \<Rightarrow> pystr \<Rightarrow>
   (error + chain_output) \<times> chat \<times> cancel_state"
where
  "experiment_runnable_invoke compress e s current_datetime provider r config input =
     (let memory = compress (messages (session_chat s));
          c1 = (if save_input_to_history config
                then save_message_to_history (session_chat s) input HUMAN
                else session_chat s)
      in case build_prompt e s current_datetime memory input of
           Inl err \<Rightarrow> (Inl err, c1, r)
         | Inr request \<Rightarrow>
             (case consume_stream r [] (stream provider) of
                (out, r') \<Rightarrow>
                  (let result = ChainOutput out (callback_prompt_tokens provider)
                                  (callback_completion_tokens provider)
                   in if cancelled r' then (Inl (GenerationCancelled result), c1, r')
                      else if save_output_to_history config
                      then (Inr result, save_message_to_history c1 out AI, r')
                      else (Inr result, c1, r'))))"

section \<open>The hosted-assistant runnable\<close>

text \<open>The \<open>OpenAIAssistantFinish\<close> a successful call returns.\<close>

record assistant_finish =
  return_output :: pystr
  finish_thread_id :: pystr

text \<open>
  What one call of the assistant does: it returns, or raises \<open>openai.BadRequestError\<close>
  (with \<open>body["message"]\<close>, and the run statuses the client then reports to the cancel
  call and to each later retrieve call), or raises \<open>ValueError\<close>, or raises anything else.
\<close>

datatype invoke_outcome =
    Finish assistant_finish
  | RaiseBadRequest "pystr option" "pystr list"
  | RaiseValueError pystr
  | RaiseOther pystr

text \<open>
  The calls made to the provider: the content of each request, the runs cancelled and
  the sleeps between polls, in seconds.
\<close>

record assistant_io =
  requests :: "pystr list"
  cancelled_runs :: "(pystr option \<times> pystr) list"
  sleeps :: "real list"

definition no_io :: assistant_io where
  "no_io = \<lparr>requests = [], cancelled_runs = [], sleeps = []\<rparr>"

text \<open>
  The polling loop of \<open>_cancel_run\<close> over the statuses of the retrieve calls. It goes
  on while the status is \<open>cancelling\<close>; \<open>None\<close> when the reported statuses end before
  the run has left that status (the loop has not returned).
\<close>

fun poll_cancelling :: "real \<Rightarrow> pystr list \<Rightarrow> real list option" where
  "poll_cancelling every [] = None"
| "poll_cancelling every (st # sts) =
     (if st = ascii ''cancelling''
      then map_option ((#) (every / 1000)) (poll_cancelling every sts)
      else Some [])"

definition cancel_run ::
  "assistant \<Rightarrow> pystr option \<Rightarrow> pystr \<Rightarrow> pystr list \<Rightarrow> assistant_io \<Rightarrow> assistant_io option"
where
  "cancel_run a thread_id run_id statuses io =
     (case statuses of
        [] \<Rightarrow> None
      | st # sts \<Rightarrow>
          (let io' = io\<lparr>cancelled_runs := cancelled_runs io @ [(thread_id, run_id)]\<rparr>
           in if st = ascii ''cancelling''
              then map_option (\<lambda>sl. io'\<lparr>sleeps := sleeps io' @ sl\<rparr>)
                     (poll_cancelling (assistant_check_every_ms a) sts)
              else Some io'))"

text \<open>
  \<open>_handle_api_error\<close>. \<open>busy_match\<close> is \<open>re.match\<close> with the pattern of the source
  followed by \<open>groups()\<close>: the thread id and run id found in the message, if it matches.
  \<open>Inr ()\<close> is the plain return that lets the caller retry.
\<close>

definition handle_api_error ::
  "(pystr \<Rightarrow> (pystr \<times> pystr) option) \<Rightarrow> assistant \<Rightarrow> pystr option \<Rightarrow> pystr option \<Rightarrow>
   pystr list \<Rightarrow> assistant_io \<Rightarrow> ((error + unit) \<times> assistant_io) option"
where
  "handle_api_error busy_match a thread_id body_message statuses io =
     (let message = (case body_message of None \<Rightarrow> [] | Some m \<Rightarrow> m)
      in case busy_match message of
           None \<Rightarrow> Some (Inl (BadRequestError body_message), io)
         | Some (error_thread_id, run_id) \<Rightarrow>
             if Some error_thread_id \<noteq> thread_id
             then Some (Inl (GenerationError (ascii ''Thread ID mismatch'')), io)
             else map_option (Pair (Inr ())) (cancel_run a thread_id run_id statuses io))"

text \<open>
  The loop of \<open>_get_response_with_retries\<close>: \<open>n\<close> iterations are left, \<open>i\<close> is the
  index of the next call, \<open>content\<close> the value under \<open>input_dict["content"]\<close>, which
  \<open>format_input\<close> overwrites in place at every attempt. An exception of
  \<open>format_input\<close> is raised inside the \<open>try\<close>, so a \<open>ValueError\<close> of it is
  handled like one of the provider.
\<close>

definition is_cancel_message :: "pystr \<Rightarrow> bool" where
  "is_cancel_message m \<longleftrightarrow> contains (ascii ''cancelling'') m \<or> contains (ascii ''cancelled'') m"

fun retry_loop ::
  "(pystr \<Rightarrow> (pystr \<times> pystr) option) \<Rightarrow> Experiment \<Rightarrow> assistant \<Rightarrow> (nat \<Rightarrow> invoke_outcome) \<Rightarrow>
   pystr option \<Rightarrow> nat \<Rightarrow> nat \<Rightarrow> pystr \<Rightarrow> assistant_io \<Rightarrow>
   ((error + assistant_finish) \<times> assistant_io) option"
where
  "retry_loop busy_match e a provider thread_id 0 i content io =
     Some (Inl (GenerationError (ascii ''Failed to get response after 3 retries'')), io)"
| "retry_loop busy_match e a provider thread_id (Suc n) i content io =
     (case format_input e content of
        Inl (ValueError m) \<Rightarrow>
          if is_cancel_message m
          then Some (Inl (GenerationCancelled (ChainOutput [] 0 0)), io)
          else retry_loop busy_match e a provider thread_id n (Suc i) content io
      | Inl err \<Rightarrow> Some (Inl err, io)
      | Inr content' \<Rightarrow>
          (let io' = io\<lparr>requests := requests io @ [content']\<rparr>
           in case provider i of
                Finish response \<Rightarrow> Some (Inr response, io')
              | RaiseBadRequest body_message statuses \<Rightarrow>
                  (case handle_api_error busy_match a thread_id body_message statuses io' of
                     None \<Rightarrow> None
                   | Some (Inl err, io'') \<Rightarrow> Some (Inl err, io'')
                   | Some (Inr u, io'') \<Rightarrow>
                       retry_loop busy_match e a provider thread_id n (Suc i) content' io'')
              | RaiseValueError m \<Rightarrow>
                  if is_cancel_message m
                  then Some (Inl (GenerationCancelled (ChainOutput [] 0 0)), io')
                  else retry_loop busy_match e a provider thread_id n (Suc i) content' io'
              | RaiseOther m \<Rightarrow> Some (Inl (OtherError m), io')))"

definition get_response_with_retries ::
  "(pystr \<Rightarrow> (pystr \<times> pystr) option) \<Rightarrow> Experiment \<Rightarrow> assistant \<Rightarrow> (nat \<Rightarrow> invoke_outcome) \<Rightarrow>
   pystr option \<Rightarrow> pystr \<Rightarrow> ((error + assistant_finish) \<times> assistant_io) option"
where
  "get_response_with_retries busy_match e a provider thread_id content =
     retry_loop busy_match e a provider thread_id 3 0 content no_io"

text \<open>
  \<open>AssistantExperimentRunnable.invoke\<close>. The AI message is saved whatever the
  configuration says, and the token counts of the result are the literals of the source.
\<close>

definition assistant_invoke ::
  "(pystr \<Rightarrow> (pystr \<times> pystr) option) \<Rightarrow> Experiment \<Rightarrow> experiment_session \<Rightarrow>
   (nat \<Rightarrow> invoke_outcome) \<Rightarrow> runnable_config \<Rightarrow> pystr \<Rightarrow>
   ((error + chain_output) \<times> chat \<times> assistant_io) option"
where
  "assistant_invoke busy_match e s provider config input =
     (let c1 = (if save_input_to_history config
                then save_message_to_history (session_chat s) input HUMAN
                else session_chat s);
          thread_id = openai_thread_id c1
      in case assistant e of
           None \<Rightarrow> Some (Inl AttributeError, c1, no_io)
         | Some a \<Rightarrow>
             (case get_participant_data s of
                Inl err \<Rightarrow> Some (Inl err, c1, no_io)
              | Inr pd \<Rightarrow>
                  (case py_format (instructions a) [(ascii ''participant_data'', pd)] of
                     Inl err \<Rightarrow> Some (Inl err, c1, no_io)
                   | Inr new_instructions \<Rightarrow>
                       (case get_response_with_retries busy_match e a provider thread_id input of
                          None \<Rightarrow> None
                        | Some (Inl err, io) \<Rightarrow> Some (Inl err, c1, io)
                        | Some (Inr response, io) \<Rightarrow>
                            (let c2 = (if thread_id = None \<or> thread_id = Some []
                                       then c1\<lparr>openai_thread_id := Some (finish_thread_id response)\<rparr>
                                       else c1);
                                 out = return_output response
                             in Some (Inr (ChainOutput out 0 0),
                                      save_message_to_history c2 out AI, io))))))"


section \<open>Channels: the world the handler acts on\<close>

datatype message_type = TEXT | VOICE

text \<open>
  An inbound message as the handler sees it through its properties: the chat id, the
  content type (\<open>None\<close> for a type that is not a member of \<open>MESSAGE_TYPES\<close>), the
  text of the message and the unparsed content type. The user query of a message that
  is not a voice message is its text; the transcription of voice messages is outside the
  model, and the handler below answers a voice message with \<open>Unmodelled\<close>.
\<close>

record message =
  chat_id :: pystr
  content_type :: "message_type option"
  message_text :: pystr
  content_type_unparsed :: pystr

datatype outbound = SentText pystr | SentVoice pystr

datatype static_trigger_type =
  PARTICIPANT_JOINED_EXPERIMENT | CONVERSATION_START | NEW_HUMAN_MESSAGE

text \<open>
  The database and the outside world: the sessions in creation order (a session's id is
  its position), the participants, what was handed to the transport of the channel, the
  triggers enqueued, the inputs handed to the bot with their \<open>save_input_to_history\<close>
  flag and the session as it was at that moment, and the clock.
\<close>

record world =
  sessions :: "experiment_session list"
  participants :: "participant list"
  outbox :: "outbound list"
  triggers :: "(nat \<times> static_trigger_type) list"
  bot_inputs :: "(experiment_session \<times> pystr \<times> bool) list"
  clock :: nat

text \<open>
  The handler object: its channel and experiment, the session it was constructed with,
  the class attributes \<open>supported_message_types\<close> and \<open>voice_replies_supported\<close>,
  Slack's \<open>send_response_to_user\<close>, the rendered prompt for unsupported messages, and
  whether the speech service fails to synthesize.
\<close>

record handler =
  handler_channel :: experiment_channel
  handler_experiment :: Experiment
  handler_session :: "nat option"
  supported_message_types :: "message_type list"
  voice_replies_supported :: bool
  send_response_to_user :: bool
  unsupported_prompt :: pystr
  synthesis_fails :: bool

text \<open>
  \<open>TopicBot(session).process_input(input, save_input_to_history)\<close> is declared outside
  the files at hand: it is a parameter, a function that reads the session and returns the
  answer or an exception together with the chat as it leaves it.
\<close>

type_synonym topic_bot = "experiment_session \<Rightarrow> pystr \<Rightarrow> bool \<Rightarrow> (error + pystr) \<times> chat"

definition update_session ::
  "world \<Rightarrow> nat \<Rightarrow> (experiment_session \<Rightarrow> experiment_session) \<Rightarrow> world" where
  "update_session w sid f = w\<lparr>sessions := (sessions w)[sid := f (sessions w ! sid)]\<rparr>"

text \<open>
  Modelled from the spec: \<open>ExperimentSession.update_status\<close> and
  \<open>ExperimentSession.end\<close> are declared outside the files at hand. The spec names them
  the update-status and end operations of the session store; ending a session makes its
  ended-at non-null.
\<close>

definition update_status :: "world \<Rightarrow> nat \<Rightarrow> session_status \<Rightarrow> world" where
  "update_status w sid st = update_session w sid (\<lambda>s. s\<lparr>status := st\<rparr>)"

definition end_session :: "world \<Rightarrow> nat \<Rightarrow> world" where
  "end_session w sid = update_session w sid (\<lambda>s. s\<lparr>ended_at := Some (clock w)\<rparr>)"

definition enqueue_static_triggers :: "world \<Rightarrow> nat \<Rightarrow> static_trigger_type \<Rightarrow> world" where
  "enqueue_static_triggers w sid t = w\<lparr>triggers := triggers w @ [(sid, t)]\<rparr>"

definition add_message_to_history :: "world \<Rightarrow> nat \<Rightarrow> pystr \<Rightarrow> chat_message_type \<Rightarrow> world" where
  "add_message_to_history w sid message type =
     update_session w sid
       (\<lambda>s. s\<lparr>session_chat := save_message_to_history (session_chat s) message type\<rparr>)"

text \<open>
  \<open>send_text_to_user\<close>: the web and API handlers inherit the empty method of the base
  class, the Slack handler sends unless told not to, the others send.
\<close>

definition send_text_to_user :: "handler \<Rightarrow> world \<Rightarrow> pystr \<Rightarrow> world" where
  "send_text_to_user h w body =
     (if platform (handler_channel h) = WEB \<or> platform (handler_channel h) = API then w
      else if platform (handler_channel h) = SLACK \<and> \<not> send_response_to_user h then w
      else w\<lparr>outbox := outbox w @ [SentText body]\<rparr>)"

definition send_voice_to_user :: "handler \<Rightarrow> world \<Rightarrow> pystr \<Rightarrow> world" where
  "send_voice_to_user h w body = w\<lparr>outbox := outbox w @ [SentVoice body]\<rparr>"

definition reply_voice_message :: "handler \<Rightarrow> world \<Rightarrow> pystr \<Rightarrow> world" where
  "reply_voice_message h w body =
     (if synthesis_fails h then send_text_to_user h w body else send_voice_to_user h w body)"

definition send_message_to_user :: "handler \<Rightarrow> world \<Rightarrow> message \<Rightarrow> pystr \<Rightarrow> world" where
  "send_message_to_user h w m bot_message =
     (let user_sent_voice = (content_type m = Some VOICE);
          voice_config = voice_response_behaviour (handler_experiment h)
      in if voice_replies_supported h \<and> synthetic_voice (handler_experiment h) \<noteq> None \<and>
            (voice_config = ALWAYS \<or> (voice_config = RECIPROCAL \<and> user_sent_voice))
         then reply_voice_message h w bot_message
         else send_text_to_user h w bot_message)"

text \<open>\<open>new_bot_message\<close>: the web and API handlers override it with an empty method.\<close>

definition new_bot_message :: "handler \<Rightarrow> world \<Rightarrow> message \<Rightarrow> pystr \<Rightarrow> world" where
  "new_bot_message h w m bot_message =
     (if platform (handler_channel h) = WEB \<or> platform (handler_channel h) = API then w
      else send_message_to_user h w m bot_message)"

section \<open>Channels: sessions\<close>

definition matching_sessions :: "world \<Rightarrow> nat \<Rightarrow> pystr \<Rightarrow> nat list" where
  "matching_sessions w eid cid =
     filter (\<lambda>i. session_experiment (sessions w ! i) = eid \<and>
                 participant_identifier (session_participant (sessions w ! i)) = cid)
       [0..<length (sessions w)]"

text \<open>The query of \<open>_ensure_sessions_exists\<close>: the most recently created match.\<close>

definition latest_session :: "world \<Rightarrow> nat \<Rightarrow> pystr \<Rightarrow> nat option" where
  "latest_session w eid cid =
     (case rev (matching_sessions w eid cid) of [] \<Rightarrow> None | i # _ \<Rightarrow> Some i)"

definition get_or_create_participant :: "world \<Rightarrow> pystr \<Rightarrow> nat \<Rightarrow> participant \<times> world" where
  "get_or_create_participant w cid team =
     (case filter (\<lambda>p. participant_identifier p = cid \<and> participant_team p = team)
             (participants w) of
        p # _ \<Rightarrow> (p, w)
      | [] \<Rightarrow>
          (let p = \<lparr>participant_id = length (participants w), participant_identifier = cid,
                    participant_team = team, user = None, participant_data = None\<rparr>
           in (p, w\<lparr>participants := participants w @ [p]\<rparr>)))"

definition new_session :: "Experiment \<Rightarrow> experiment_channel \<Rightarrow> participant \<Rightarrow> experiment_session" where
  "new_session e ch p =
     \<lparr>session_experiment = experiment_id e, session_participant = p, status = SETUP,
      ended_at = None, session_channel = Some ch,
      session_chat = \<lparr>messages = [], openai_thread_id = None\<rparr>, no_activity_ping_count = 0\<rparr>"

text \<open>
  \<open>_create_new_experiment_session\<close>; \<open>current\<close> is \<open>self.experiment_session\<close>. The
  result is the id of the new session, which becomes the handler's session.
\<close>

definition create_new_experiment_session ::
  "handler \<Rightarrow> world \<Rightarrow> nat option \<Rightarrow> message \<Rightarrow> nat \<times> world" where
  "create_new_experiment_session h w current m =
     (case (case current of
              None \<Rightarrow> get_or_create_participant w (chat_id m)
                        (experiment_team (handler_experiment h))
            | Some sid \<Rightarrow> (session_participant (sessions w ! sid), w)) of
        (p, w1) \<Rightarrow>
          (let sid' = length (sessions w1);
               w2 = w1\<lparr>sessions := sessions w1 @
                         [new_session (handler_experiment h) (handler_channel h) p]\<rparr>
           in (sid', enqueue_static_triggers w2 sid' CONVERSATION_START)))"

definition reset_session :: "handler \<Rightarrow> world \<Rightarrow> nat \<Rightarrow> message \<Rightarrow> nat \<times> world" where
  "reset_session h w sid m = create_new_experiment_session h (end_session w sid) (Some sid) m"

definition is_reset_conversation_request :: "handler \<Rightarrow> message \<Rightarrow> bool" where
  "is_reset_conversation_request h m \<longleftrightarrow> message_text m = RESET_COMMAND (handler_channel h)"

text \<open>
  \<open>_ensure_sessions_exists\<close>. The web and Slack handlers override it: they only check
  that a session was given. \<open>engaged\<close> is \<open>ExperimentSession.user_already_engaged\<close>,
  declared outside the files at hand and so a parameter.
\<close>

definition ensure_sessions_exists ::
  "(experiment_session \<Rightarrow> bool) \<Rightarrow> handler \<Rightarrow> world \<Rightarrow> message \<Rightarrow> (error + nat) \<times> world" where
  "ensure_sessions_exists engaged h w m =
     (if platform (handler_channel h) = WEB \<or> platform (handler_channel h) = SLACK then
        (case handler_session h of
           None \<Rightarrow> (Inl (MessageHandlerException (ascii ''WebChannel requires an existing session'')), w)
         | Some sid \<Rightarrow> (Inr sid, w))
      else
        (case latest_session w (experiment_id (handler_experiment h)) (chat_id m) of
           None \<Rightarrow>
             (case create_new_experiment_session h w None m of
                (sid, w1) \<Rightarrow> (Inr sid, enqueue_static_triggers w1 sid PARTICIPANT_JOINED_EXPERIMENT))
         | Some sid \<Rightarrow>
             (case (if is_reset_conversation_request h m \<and> engaged (sessions w ! sid)
                    then reset_session h w sid m else (sid, w)) of
                (sid1, w1) \<Rightarrow>
                  (Inr sid1,
                   if session_channel (sessions w1 ! sid1) = None
                   then update_session w1 sid1 (\<lambda>s. s\<lparr>session_channel := Some (handler_channel h)\<rparr>)
                   else w1))))"


section \<open>Channels: handling a message\<close>

text \<open>
  A call of the bot: the session is handed over as it is, the chat comes back as the bot
  leaves it, and the call is recorded.
\<close>

definition call_bot ::
  "topic_bot \<Rightarrow> world \<Rightarrow> nat \<Rightarrow> pystr \<Rightarrow> bool \<Rightarrow> (error + pystr) \<times> world" where
  "call_bot tbot w sid input save =
     (case tbot (sessions w ! sid) input save of
        (r, c) \<Rightarrow>
          (r, (update_session w sid (\<lambda>s. s\<lparr>session_chat := c\<rparr>))
                \<lparr>bot_inputs := bot_inputs w @ [(sessions w ! sid, input, save)]\<rparr>))"

definition generate_response_for_user ::
  "topic_bot \<Rightarrow> world \<Rightarrow> nat \<Rightarrow> pystr \<Rightarrow> (error + pystr) \<times> world" where
  "generate_response_for_user tbot w sid prompt = call_bot tbot w sid prompt False"

definition get_experiment_response ::
  "topic_bot \<Rightarrow> world \<Rightarrow> nat \<Rightarrow> pystr \<Rightarrow> (error + pystr) \<times> world" where
  "get_experiment_response tbot w sid message =
     (case call_bot tbot w sid message True of
        (Inl err, w1) \<Rightarrow> (Inl err, w1)
      | (Inr answer, w1) \<Rightarrow>
          (Inr answer, update_session w1 sid (\<lambda>s. s\<lparr>no_activity_ping_count := 0\<rparr>)))"

definition handle_supported_message ::
  "topic_bot \<Rightarrow> handler \<Rightarrow> world \<Rightarrow> nat \<Rightarrow> message \<Rightarrow> (error + pystr option) \<times> world" where
  "handle_supported_message tbot h w sid m =
     (case get_experiment_response tbot w sid (message_text m) of
        (Inl err, w1) \<Rightarrow> (Inl err, w1)
      | (Inr response, w1) \<Rightarrow> (Inr (Some response), send_message_to_user h w1 m response))"

definition handle_unsupported_message ::
  "topic_bot \<Rightarrow> handler \<Rightarrow> world \<Rightarrow> nat \<Rightarrow> message \<Rightarrow> (error + pystr option) \<times> world" where
  "handle_unsupported_message tbot h w sid m =
     (let w1 = add_message_to_history w sid
                 (ascii ''The user sent an unsupported message type: '' @ content_type_unparsed m)
                 SYSTEM
      in case generate_response_for_user tbot w1 sid (unsupported_prompt h) of
           (Inl err, w2) \<Rightarrow> (Inl err, w2)
         | (Inr response, w2) \<Rightarrow> (Inr None, send_text_to_user h w2 response))"

definition consent_request :: "Experiment \<Rightarrow> pystr" where
  "consent_request e =
     consent_text (consent_form e) @ [10, 10] @ confirmation_text (consent_form e)"

definition ask_user_for_consent :: "handler \<Rightarrow> world \<Rightarrow> nat \<Rightarrow> world" where
  "ask_user_for_consent h w sid =
     (let bot_message = consent_request (handler_experiment h)
      in send_text_to_user h (add_message_to_history w sid bot_message AI) bot_message)"

text \<open>The survey message: the confirmation text with the link of the session filled in.\<close>

definition survey_request :: "survey \<Rightarrow> nat \<Rightarrow> error + pystr" where
  "survey_request sv sid =
     py_format (survey_confirmation_text sv) [(ascii ''survey_link'', get_link sv sid)]"

definition ask_user_to_take_survey :: "handler \<Rightarrow> world \<Rightarrow> nat \<Rightarrow> (error + unit) \<times> world" where
  "ask_user_to_take_survey h w sid =
     (case pre_survey (handler_experiment h) of
        None \<Rightarrow> (Inl AttributeError, w)
      | Some sv \<Rightarrow>
          (case survey_request sv sid of
             Inl err \<Rightarrow> (Inl err, w)
           | Inr bot_message \<Rightarrow>
               (Inr (), send_text_to_user h (add_message_to_history w sid bot_message AI)
                          bot_message)))"

definition start_conversation ::
  "topic_bot \<Rightarrow> handler \<Rightarrow> world \<Rightarrow> nat \<Rightarrow> message \<Rightarrow> (error + unit) \<times> world" where
  "start_conversation tbot h w sid m =
     (let w1 = update_status w sid ACTIVE
      in if seed_message (handler_experiment h) \<noteq> [] then
           (case generate_response_for_user tbot w1 sid (seed_message (handler_experiment h)) of
              (Inl err, w2) \<Rightarrow> (Inl err, w2)
            | (Inr bot_response, w2) \<Rightarrow> (Inr (), new_bot_message h w2 m bot_response))
         else (Inr (), w1))"

definition chat_initiated :: "handler \<Rightarrow> world \<Rightarrow> nat \<Rightarrow> world" where
  "chat_initiated h w sid = ask_user_for_consent h (update_status w sid PENDING) sid"

definition handle_pre_conversation_requirements ::
  "topic_bot \<Rightarrow> handler \<Rightarrow> world \<Rightarrow> nat \<Rightarrow> message \<Rightarrow> (error + unit) \<times> world" where
  "handle_pre_conversation_requirements tbot h w sid m =
     (let w1 = add_message_to_history w sid (message_text m) HUMAN;
          st = status (sessions w1 ! sid)
      in if st = SETUP then (Inr (), chat_initiated h w1 sid)
         else if st = PENDING then
           (if user_gave_consent (message_text m) then
              (if pre_survey (handler_experiment h) = None then start_conversation tbot h w1 sid m
               else ask_user_to_take_survey h (update_status w1 sid PENDING_PRE_SURVEY) sid)
            else (Inr (), ask_user_for_consent h w1 sid))
         else if st = PENDING_PRE_SURVEY then
           (if user_gave_consent (message_text m) then start_conversation tbot h w1 sid m
            else ask_user_to_take_survey h w1 sid)
         else (Inr (), w1))"

definition should_handle_pre_conversation_requirements :: "world \<Rightarrow> nat \<Rightarrow> bool" where
  "should_handle_pre_conversation_requirements w sid \<longleftrightarrow>
     status (sessions w ! sid) \<in> {SETUP, PENDING, PENDING_PRE_SURVEY}"

definition is_message_type_supported :: "handler \<Rightarrow> message \<Rightarrow> bool" where
  "is_message_type_supported h m \<longleftrightarrow>
     (case content_type m of None \<Rightarrow> False | Some t \<Rightarrow> t \<in> set (supported_message_types h))"

text \<open>
  \<open>_new_user_message\<close>. The value is the Python return value: \<open>None\<close> where the
  source returns nothing.
\<close>

definition new_user_message_impl ::
  "(experiment_session \<Rightarrow> bool) \<Rightarrow> topic_bot \<Rightarrow> handler \<Rightarrow> world \<Rightarrow> message \<Rightarrow>
   (error + pystr option) \<times> world" where
  "new_user_message_impl engaged tbot h w m =
     (if content_type m = Some VOICE then (Inl Unmodelled, w)
      else
        (case ensure_sessions_exists engaged h w m of
           (Inl err, w1) \<Rightarrow> (Inl err, w1)
         | (Inr sid, w1) \<Rightarrow>
             if \<not> is_message_type_supported h m then handle_unsupported_message tbot h w1 sid m
             else if platform (handler_channel h) \<noteq> WEB \<and> is_reset_conversation_request h m
             then (Inr None, w1)
             else if platform (handler_channel h) \<noteq> WEB \<and>
                     conversational_consent_enabled (handler_experiment h) \<and>
                     should_handle_pre_conversation_requirements w1 sid
             then
               (case handle_pre_conversation_requirements tbot h w1 sid m of
                  (Inl err, w2) \<Rightarrow> (Inl err, w2)
                | (Inr u, w2) \<Rightarrow> (Inr None, w2))
             else
               (let w2 = (if platform (handler_channel h) \<noteq> WEB \<and>
                             \<not> conversational_consent_enabled (handler_experiment h)
                          then update_status w1 sid ACTIVE else w1);
                    w3 = enqueue_static_triggers w2 sid NEW_HUMAN_MESSAGE
                in handle_supported_message tbot h w3 sid m)))"

text \<open>\<open>new_user_message\<close>: the \<open>try\<close> around it, with its single \<open>except\<close> clause.\<close>

definition new_user_message ::
  "(experiment_session \<Rightarrow> bool) \<Rightarrow> topic_bot \<Rightarrow> handler \<Rightarrow> world \<Rightarrow> message \<Rightarrow>
   (error + pystr option) \<times> world" where
  "new_user_message engaged tbot h w m =
     (case new_user_message_impl engaged tbot h w m of
        (Inl (GenerationCancelled partial), w1) \<Rightarrow> (Inr (Some []), w1)
      | (Inl err, w1) \<Rightarrow> (Inl err, w1)
      | (Inr v, w1) \<Rightarrow> (Inr v, w1))"


section \<open>The spec's variant selection and concrete configurations\<close>

text \<open>
  The priority order in the words of the spec: the hosted assistant if the experiment
  references one, else the agent if tools are enabled, else the plain completion.
\<close>

definition spec_runnable_choice :: "Experiment \<Rightarrow> runnable_kind" where
  "spec_runnable_choice e =
     (if assistant e \<noteq> None then AssistantExperimentRunnable
      else if tools_enabled e then AgentExperimentRunnable
      else SimpleExperimentRunnable)"

text \<open>An experiment, an assistant and a channel to evaluate the model on.\<close>

definition example_experiment :: Experiment where
  "example_experiment =
     \<lparr>experiment_id = 1, experiment_team = 1, assistant = None, llm = ascii ''gpt-4'',
      llm_provider = Some 1, tools_enabled = False,
      prompt_text = ascii ''You are a helpful assistant'', source_material = None,
      input_formatter = [], conversational_consent_enabled = True,
      consent_form = \<lparr>consent_text = ascii ''Do you agree?'',
                      confirmation_text = ascii ''Reply 1 to agree''\<rparr>,
      pre_survey = None, seed_message = [], synthetic_voice = None,
      voice_response_behaviour = NEVER\<rparr>"

definition example_assistant :: assistant where
  "example_assistant =
     \<lparr>instructions = ascii ''Help {participant_data}'', assistant_check_every_ms = 1000\<rparr>"

definition example_channel :: experiment_channel where
  "example_channel = \<lparr>channel_id = 1, platform = TELEGRAM, RESET_COMMAND = ascii ''/reset''\<rparr>"

definition example_participant :: participant where
  "example_participant =
     \<lparr>participant_id = 0, participant_identifier = ascii ''123'', participant_team = 1,
      user = None, participant_data = Some (ascii ''{'name': 'Tester'}'')\<rparr>"

definition example_session :: experiment_session where
  "example_session =
     \<lparr>session_experiment = 1, session_participant = example_participant, status = SETUP,
      ended_at = None, session_channel = Some example_channel,
      session_chat = \<lparr>messages = [], openai_thread_id = None\<rparr>, no_activity_ping_count = 0\<rparr>"

definition default_config :: runnable_config where
  "default_config = \<lparr>save_input_to_history = True, save_output_to_history = True\<rparr>"

text \<open>
  A stand-in for the regular expression of \<open>_handle_api_error\<close> that knows one
  message, and a provider that raises a \<open>ValueError\<close> about a failed run at the first
  call and answers at the second.
\<close>

definition example_busy_match :: "pystr \<Rightarrow> (pystr \<times> pystr) option" where
  "example_busy_match m =
     (if m = ascii ''Can't add messages to thread_abc while a run run_xyz is active.''
      then Some (ascii ''thread_abc'', ascii ''run_xyz'') else None)"

definition example_finish :: assistant_finish where
  "example_finish = \<lparr>return_output = ascii ''Hello'', finish_thread_id = ascii ''thread_abc''\<rparr>"

definition failed_run_then_answer :: "nat \<Rightarrow> invoke_outcome" where
  "failed_run_then_answer i =
     (if i = 0 then RaiseValueError (ascii ''Unexpected run status: failed'')
      else Finish example_finish)"

text \<open>
  A stream of three tokens that arrive at 100 s, 102 s and 104 s; the flag in the
  database is set from the second token on.
\<close>

definition example_stream :: "tick list" where
  "example_stream =
     [\<lparr>token = ascii ''a'', time_now = 100, stored_cancelled = False\<rparr>,
      \<lparr>token = ascii ''b'', time_now = 102, stored_cancelled = True\<rparr>,
      \<lparr>token = ascii ''c'', time_now = 104, stored_cancelled = True\<rparr>]"

section \<open>Templates as segments\<close>






section \<open>The session invariant and a concrete world\<close>



text \<open>A Telegram handler, text messages of one chat, and worlds to evaluate the model on.\<close>

definition example_handler :: handler where
  "example_handler =
     \<lparr>handler_channel = example_channel, handler_experiment = example_experiment,
      handler_session = None, supported_message_types = [TEXT, VOICE],
      voice_replies_supported = True, send_response_to_user = True,
      unsupported_prompt = ascii ''Tell the user that they sent an unsupported message'',
      synthesis_fails = False\<rparr>"

definition text_message :: "pystr \<Rightarrow> message" where
  "text_message t =
     \<lparr>chat_id = ascii ''123'', content_type = Some TEXT, message_text = t,
      content_type_unparsed = ascii ''text''\<rparr>"

definition example_world :: "experiment_session \<Rightarrow> world" where
  "example_world s =
     \<lparr>sessions = [s], participants = [example_participant], outbox = [], triggers = [],
      bot_inputs = [], clock = 7\<rparr>"

definition has_human_message :: "experiment_session \<Rightarrow> bool" where
  "has_human_message s \<longleftrightarrow> list_ex (\<lambda>msg. fst msg = HUMAN) (messages (session_chat s))"

definition engaged_session :: experiment_session where
  "engaged_session =
     example_session\<lparr>status := ACTIVE,
       session_chat := \<lparr>messages = [(HUMAN, ascii ''Hi''), (AI, ascii ''OK'')],
                        openai_thread_id = None\<rparr>\<rparr>"


text \<open>
  Two bots: one answers \<open>OK\<close> and saves the turn to the history, the other is
  cancelled after it has saved the input and streamed a part of its answer.
\<close>

definition example_bot :: topic_bot where
  "example_bot s input save =
     (Inr (ascii ''OK''),
      save_message_to_history
        (if save then save_message_to_history (session_chat s) input HUMAN else session_chat s)
        (ascii ''OK'') AI)"


definition reset_message :: message where
  "reset_message = text_message (ascii ''/reset'')"


section \<open>The spec's transition table\<close>






definition example_survey :: survey where
  "example_survey =
     \<lparr>survey_confirmation_text = ascii ''Take the survey at {survey_link} and reply 1'',
      get_link = (\<lambda>sid. ascii ''https://survey/0'')\<rparr>"

definition survey_handler :: handler where
  "survey_handler =
     example_handler\<lparr>handler_experiment :=
       example_experiment\<lparr>pre_survey := Some example_survey, seed_message := ascii ''Hi human''\<rparr>\<rparr>"

definition empty_world :: world where
  "empty_world =
     \<lparr>sessions = [], participants = [], outbox = [], triggers = [], bot_inputs = [], clock = 7\<rparr>"

text \<open>
  The conversation of the repository's test of the pre-conversation flow: the world
  after a list of text messages, handled one after the other from an empty database.
\<close>

definition after_messages :: "pystr list \<Rightarrow> world" where
  "after_messages ts =
     foldl (\<lambda>w t. snd (new_user_message has_human_message example_bot survey_handler w
                          (text_message t)))
       empty_world ts"








definition cancelled_stream :: "tick list" where
  "cancelled_stream =
     [\<lparr>token = ascii ''The'', time_now = 100, stored_cancelled = True\<rparr>,
      \<lparr>token = ascii '' answer'', time_now = 100.5, stored_cancelled = True\<rparr>]"




section \<open>Properties: the consent token\<close>

lemma strip_sandwich:
  assumes "list_all isspace l" "list_all isspace r" "\<not> isspace c"
  shows "strip (l @ c # r) = [c]"
proof -
  have "dropWhile isspace (l @ c # r) = c # r"
    using assms by (simp add: dropWhile_append2 list_all_iff)
  moreover have "dropWhile isspace (rev r @ [c]) = dropWhile isspace [c]"
    by (rule dropWhile_append2) (use assms in \<open>simp add: list_all_iff\<close>)
  ultimately show ?thesis using assms by (simp add: strip_def)
qed

lemma strip_single:
  assumes "strip q = [c]"
  shows "\<exists>l r. list_all isspace l \<and> list_all isspace r \<and> q = l @ c # r"
proof -
  define d where "d = dropWhile isspace q"
  define t where "t = takeWhile isspace (rev d)"
  have "rev (dropWhile isspace (rev d)) = [c]"
    using assms by (simp add: strip_def d_def)
  then have "dropWhile isspace (rev d) = [c]"
    by (metis rev_singleton_conv)
  then have "rev d = t @ [c]"
    unfolding t_def by (metis takeWhile_dropWhile_id)
  then have d: "d = c # rev t"
    by (metis rev_append rev.simps(2) rev.simps(1) append_Nil append_Cons rev_swap)
  have q: "q = takeWhile isspace q @ c # rev t"
    using d unfolding d_def by (metis takeWhile_dropWhile_id)
  have "list_all isspace (takeWhile isspace q)"
    by (auto simp: list_all_iff dest: set_takeWhileD)
  moreover have "list_all isspace (rev t)"
    by (auto simp: list_all_iff t_def dest: set_takeWhileD)
  ultimately show ?thesis using q by blast
qed

lemma consent_text_code: "USER_CONSENT_TEXT = [49]"
  by (simp add: USER_CONSENT_TEXT_def ascii_def)

lemma not_space_one: "\<not> isspace 49"
  by (simp add: isspace_def)

text \<open>
  C10. The consent check accepts exactly the replies that consist of the token \<open>1\<close>
  with nothing but whitespace before and after it: the comparison is made on the stripped
  query, and nothing else is normalised, so a reply is accepted if and only if it is
  whitespace, the token, whitespace.
\<close>

theorem user_gave_consent_iff:
  "user_gave_consent q \<longleftrightarrow>
     (\<exists>l r. list_all isspace l \<and> list_all isspace r \<and> q = l @ USER_CONSENT_TEXT @ r)"
proof
  assume "user_gave_consent q"
  then have "strip q = [49]"
    by (simp add: user_gave_consent_def consent_text_code)
  from strip_single [OF this]
  show "\<exists>l r. list_all isspace l \<and> list_all isspace r \<and> q = l @ USER_CONSENT_TEXT @ r"
    by (simp add: consent_text_code)
next
  assume "\<exists>l r. list_all isspace l \<and> list_all isspace r \<and> q = l @ USER_CONSENT_TEXT @ r"
  then obtain l r where "list_all isspace l" "list_all isspace r" "q = l @ 49 # r"
    by (auto simp: consent_text_code)
  then show "user_gave_consent q"
    using strip_sandwich [of l r 49] not_space_one
    by (simp add: user_gave_consent_def consent_text_code)
qed

text \<open>
  Instances: \<open>" 1 "\<close> is accepted; \<open>"1."\<close>, the fullwidth digit one (U+FF11) and
  \<open>"one"\<close> are not.
\<close>

lemma consent_examples:
  "user_gave_consent (ascii '' 1 '')"
  "\<not> user_gave_consent (ascii ''1.'')"
  "\<not> user_gave_consent [65297]"
  "\<not> user_gave_consent (ascii ''one'')"
  by (simp_all add: user_gave_consent_def consent_text_code ascii_def strip_def isspace_def)

section \<open>Properties: the runnable factory\<close>

text \<open>
  C6, as stated, fails: an experiment without an assistant and without an LLM model
  does not get the agent although its tools are enabled; the factory raises
  \<open>AssertionError\<close>.
\<close>

theorem create_experiment_runnable_counterexample:
  "create_experiment_runnable (example_experiment\<lparr>llm := [], tools_enabled := True\<rparr>) =
     Inl (AssertionError (ascii ''Experiment must have an LLM model'')) \<and>
   spec_runnable_choice (example_experiment\<lparr>llm := [], tools_enabled := True\<rparr>) =
     AgentExperimentRunnable"
  by (simp add: create_experiment_runnable_def spec_runnable_choice_def example_experiment_def)

text \<open>
  C6, amended. The factory returns the variant of the priority order (assistant, then
  agent, then plain completion) for every experiment that references an assistant or has
  both an LLM model and an LLM provider; an assistant wins over enabled tools and needs
  neither model nor provider. For an experiment without an assistant that lacks the model
  or the provider the factory raises \<open>AssertionError\<close> and selects nothing.
\<close>

theorem create_experiment_runnable_priority:
  "(assistant e \<noteq> None \<or> (llm e \<noteq> [] \<and> llm_provider e \<noteq> None) \<longrightarrow>
      create_experiment_runnable e = Inr (spec_runnable_choice e)) \<and>
   (assistant e \<noteq> None \<longrightarrow> spec_runnable_choice e = AssistantExperimentRunnable) \<and>
   (assistant e = None \<and> (llm e = [] \<or> llm_provider e = None) \<longrightarrow>
      (\<exists>msg. create_experiment_runnable e = Inl (AssertionError msg)))"
  by (simp add: create_experiment_runnable_def spec_runnable_choice_def)

theorem create_experiment_runnable_priority_witness:
  "create_experiment_runnable
     (example_experiment\<lparr>assistant := Some example_assistant, llm := [], tools_enabled := True\<rparr>) =
     Inr AssistantExperimentRunnable \<and>
   create_experiment_runnable (example_experiment\<lparr>tools_enabled := True\<rparr>) =
     Inr AgentExperimentRunnable \<and>
   create_experiment_runnable example_experiment = Inr SimpleExperimentRunnable \<and>
   (\<exists>msg. create_experiment_runnable (example_experiment\<lparr>llm_provider := None\<rparr>) =
      Inl (AssertionError msg))"
  using
    create_experiment_runnable_priority
      [of "example_experiment\<lparr>assistant := Some example_assistant, llm := [], tools_enabled := True\<rparr>"]
    create_experiment_runnable_priority [of "example_experiment\<lparr>tools_enabled := True\<rparr>"]
    create_experiment_runnable_priority [of example_experiment]
    create_experiment_runnable_priority [of "example_experiment\<lparr>llm_provider := None\<rparr>"]
  by (simp add: spec_runnable_choice_def example_experiment_def ascii_def)

section \<open>Properties: the hosted-assistant runnable\<close>

lemma get_response_unroll:
  "get_response_with_retries bm e a p t c = retry_loop bm e a p t (Suc (Suc (Suc 0))) 0 c no_io"
  by (simp add: get_response_with_retries_def numeral_3_eq_3)

lemma retries_thread_busy:
  assumes "input_formatter e = []"
    and "\<And>i. provider i = RaiseBadRequest (Some msg) [ascii ''cancelled'']"
    and "busy_match msg = Some (tid, run)"
  shows "get_response_with_retries busy_match e a provider (Some tid) content =
           Some (Inl (GenerationError (ascii ''Failed to get response after 3 retries'')),
                 \<lparr>requests = [content, content, content],
                  cancelled_runs = [(Some tid, run), (Some tid, run), (Some tid, run)],
                  sleeps = []\<rparr>)"
  using assms
  by (simp add: get_response_unroll format_input_def handle_api_error_def cancel_run_def
      no_io_def ascii_def)

lemma retries_thread_mismatch:
  assumes "input_formatter e = []"
    and "provider 0 = RaiseBadRequest (Some msg) statuses"
    and "busy_match msg = Some (tid, run)" and "thread_id \<noteq> Some tid"
  shows "get_response_with_retries busy_match e a provider thread_id content =
           Some (Inl (GenerationError (ascii ''Thread ID mismatch'')),
                 \<lparr>requests = [content], cancelled_runs = [], sleeps = []\<rparr>)"
  using assms
  by (auto simp add: get_response_unroll format_input_def handle_api_error_def no_io_def)

lemma retries_other_bad_request:
  assumes "input_formatter e = []"
    and "provider 0 = RaiseBadRequest body statuses"
    and "busy_match (case body of None \<Rightarrow> [] | Some m \<Rightarrow> m) = None"
  shows "get_response_with_retries busy_match e a provider thread_id content =
           Some (Inl (BadRequestError body),
                 \<lparr>requests = [content], cancelled_runs = [], sleeps = []\<rparr>)"
  using assms
  by (simp add: get_response_unroll format_input_def handle_api_error_def no_io_def)

lemma retries_cancelled_elsewhere:
  assumes "input_formatter e = []"
    and "provider 0 = RaiseValueError m" and "is_cancel_message m"
  shows "get_response_with_retries busy_match e a provider thread_id content =
           Some (Inl (GenerationCancelled (ChainOutput [] 0 0)),
                 \<lparr>requests = [content], cancelled_runs = [], sleeps = []\<rparr>)"
  using assms
  by (simp add: get_response_unroll format_input_def no_io_def)

lemma handle_api_error_requests:
  "handle_api_error bm a t body sts io = Some (x, io') \<Longrightarrow> requests io' = requests io"
  by (auto simp: handle_api_error_def cancel_run_def Let_def
      split: option.splits prod.splits if_splits list.splits)

lemma retry_loop_requests:
  "retry_loop bm e a p t n i c io = Some (r, io') \<Longrightarrow>
     length (requests io') \<le> length (requests io) + n"
proof (induction n arbitrary: i c io)
  case 0
  then show ?case by simp
next
  case (Suc n)
  show ?case
  proof (cases "format_input e c")
    case (Inl err)
    show ?thesis
    proof (cases "\<exists>m. err = ValueError m \<and> \<not> is_cancel_message m")
      case True
      with Inl Suc.prems have "retry_loop bm e a p t n (Suc i) c io = Some (r, io')"
        by auto
      from Suc.IH [OF this] show ?thesis by simp
    next
      case False
      with Inl Suc.prems have "io' = io"
        by (cases err) (auto split: if_splits)
      then show ?thesis by simp
    qed
  next
    case (Inr c')
    let ?io1 = "io\<lparr>requests := requests io @ [c']\<rparr>"
    show ?thesis
    proof (cases "p i")
      case (Finish x1)
      with Inr Suc.prems show ?thesis by auto
    next
      case (RaiseBadRequest body sts)
      show ?thesis
      proof (cases "handle_api_error bm a t body sts ?io1")
        case None
        with Inr RaiseBadRequest Suc.prems show ?thesis by simp
      next
        case (Some res)
        obtain x io2 where res: "res = (x, io2)" by (cases res)
        from Some res have rq: "requests io2 = requests io @ [c']"
          using handle_api_error_requests [of bm a t body sts ?io1 x io2] by simp
        show ?thesis
        proof (cases x)
          case (Inl err)
          with Inr RaiseBadRequest Some res Suc.prems have "io' = io2" by simp
          with rq show ?thesis by simp
        next
          case (Inr u)
          with \<open>format_input e c = Inr c'\<close> RaiseBadRequest Some res Suc.prems
          have "retry_loop bm e a p t n (Suc i) c' io2 = Some (r, io')" by simp
          from Suc.IH [OF this] rq show ?thesis by simp
        qed
      qed
    next
      case (RaiseValueError m)
      show ?thesis
      proof (cases "is_cancel_message m")
        case True
        with Inr RaiseValueError Suc.prems show ?thesis by auto
      next
        case False
        with Inr RaiseValueError Suc.prems
        have "retry_loop bm e a p t n (Suc i) c' ?io1 = Some (r, io')" by simp
        from Suc.IH [OF this] show ?thesis by simp
      qed
    next
      case (RaiseOther m)
      with Inr Suc.prems show ?thesis by auto
    qed
  qed
qed

lemma at_most_three_attempts:
  "get_response_with_retries bm e a p t c = Some (r, io) \<Longrightarrow> length (requests io) \<le> 3"
  using retry_loop_requests [of bm e a p t 3 0 c no_io r io]
  by (simp add: get_response_with_retries_def no_io_def)

text \<open>
  C3. The invocation makes at most three attempts, a busy thread is cancelled and the
  call retried, a thread-id mismatch and an unrelated \<open>BadRequestError\<close> are raised
  at once, and a \<open>ValueError\<close> that speaks of cancellation becomes
  \<open>GenerationCancelled\<close> with zero token counts (the lemmas above). But a
  \<open>ValueError\<close> that does not speak of cancellation is a provider error outside the
  pattern and is not raised: the \<open>except\<close> clause falls through and the loop goes on.
  Here the first call raises \<open>ValueError("Unexpected run status: failed")\<close>; the
  invocation makes a second request and returns its answer.
\<close>

theorem retries_swallow_value_error:
  "get_response_with_retries busy_match example_experiment example_assistant
      failed_run_then_answer (Some (ascii ''thread_abc'')) (ascii ''hi'') =
   Some (Inr example_finish,
         \<lparr>requests = [ascii ''hi'', ascii ''hi''], cancelled_runs = [], sleeps = []\<rparr>)"
  by (simp add: get_response_unroll format_input_def
      example_experiment_def failed_run_then_answer_def is_cancel_message_def no_io_def ascii_def)

text \<open>
  C9. Every invocation of the hosted-assistant runnable that returns a result returns
  one whose prompt-token and completion-token counts are zero, whatever the provider did.
\<close>

theorem assistant_invoke_zero_tokens:
  "assistant_invoke busy_match e s provider config input = Some (Inr result, c, io) \<Longrightarrow>
     prompt_tokens result = 0 \<and> completion_tokens result = 0"
  by (auto simp: assistant_invoke_def Let_def split: option.splits sum.splits prod.splits if_splits)

lemma assistant_invoke_example:
  "assistant_invoke example_busy_match (example_experiment\<lparr>assistant := Some example_assistant\<rparr>)
      example_session (\<lambda>i. Finish example_finish) default_config (ascii ''hi'') =
   Some (Inr (ChainOutput (ascii ''Hello'') 0 0),
         \<lparr>messages = [(HUMAN, ascii ''hi''), (AI, ascii ''Hello'')],
          openai_thread_id = Some (ascii ''thread_abc'')\<rparr>,
         \<lparr>requests = [ascii ''hi''], cancelled_runs = [], sleeps = []\<rparr>)"
  by (simp add: assistant_invoke_def get_response_unroll example_experiment_def
      example_session_def example_participant_def example_channel_def example_assistant_def
      example_finish_def default_config_def save_message_to_history_def get_participant_data_def
      is_unauthorized_participant_def py_format_def get_field_def field_special_def is_digit_def
      format_input_def no_io_def prepend_def lbrace_def rbrace_def ascii_def Let_def)

theorem assistant_invoke_zero_tokens_witness:
  "assistant_invoke example_busy_match (example_experiment\<lparr>assistant := Some example_assistant\<rparr>)
      example_session (\<lambda>i. Finish example_finish) default_config (ascii ''hi'') =
   Some (Inr (ChainOutput (ascii ''Hello'') 0 0),
         \<lparr>messages = [(HUMAN, ascii ''hi''), (AI, ascii ''Hello'')],
          openai_thread_id = Some (ascii ''thread_abc'')\<rparr>,
         \<lparr>requests = [ascii ''hi''], cancelled_runs = [], sleeps = []\<rparr>) \<and>
   prompt_tokens (ChainOutput (ascii ''Hello'') 0 0) = 0 \<and>
   completion_tokens (ChainOutput (ascii ''Hello'') 0 0) = 0"
  using assistant_invoke_zero_tokens [OF assistant_invoke_example] assistant_invoke_example
  by simp

section \<open>Properties: cancellation polling\<close>

text \<open>
  While the runnable is not cancelled, the stored flag is read again exactly when the
  clock has advanced by 1000 or more since the last check. The clock counts seconds:
  the milliseconds of \<open>check_every_ms\<close> are added to it as they are.
\<close>

lemma chat_is_cancelled_reads:
  assumes "\<not> cancelled r" "last_cancel_check r = Some t" "t \<noteq> 0" "check_every_ms r = 1000"
  shows "flag_reads (snd (chat_is_cancelled r now stored)) =
           (if t + 1000 \<le> now then Suc (flag_reads r) else flag_reads r)"
  using assms by (simp add: chat_is_cancelled_def)

text \<open>
  C2. The flag should be read again once 1000 milliseconds have passed since the last
  check. Two seconds after a check, with the flag set in the database, the check answers
  that the chat is not cancelled and has not read the flag.
\<close>

theorem chat_is_cancelled_two_seconds_later:
  "chat_is_cancelled \<lparr>cancelled = False, last_cancel_check = Some 100, check_every_ms = 1000,
       flag_reads = 1\<rparr> 102 True =
     (False, \<lparr>cancelled = False, last_cancel_check = Some 100, check_every_ms = 1000,
       flag_reads = 1\<rparr>)"
  by (simp add: chat_is_cancelled_def)

text \<open>
  On a stream the effect is that every token is consumed: the flag is read once, at the
  first token, and the tokens that arrive two and four seconds later are appended
  although the flag has been set in between.
\<close>

lemma consume_example_stream:
  "consume_stream new_cancel_state [] example_stream =
     (ascii ''abc'', \<lparr>cancelled = False, last_cancel_check = Some 100, check_every_ms = 1000,
       flag_reads = 1\<rparr>)"
  by (simp add: example_stream_def new_cancel_state_def chat_is_cancelled_def ascii_def)

section \<open>Properties: placeholders of the prompt\<close>












section \<open>Properties: sessions and the reset command\<close>



















lemmas example_defs =
  example_handler_def example_channel_def example_experiment_def example_world_def
  example_session_def engaged_session_def example_participant_def text_message_def
  reset_message_def







section \<open>Properties: consent gating and cancellation at the top level\<close>

lemma update_session_fields [simp]:
  "sessions (update_session w sid f) = (sessions w)[sid := f (sessions w ! sid)]"
  "participants (update_session w sid f) = participants w"
  "outbox (update_session w sid f) = outbox w"
  "triggers (update_session w sid f) = triggers w"
  "bot_inputs (update_session w sid f) = bot_inputs w"
  "clock (update_session w sid f) = clock w"
  by (simp_all add: update_session_def)

lemma send_text_fields [simp]:
  "sessions (send_text_to_user h w t) = sessions w"
  "participants (send_text_to_user h w t) = participants w"
  "triggers (send_text_to_user h w t) = triggers w"
  "bot_inputs (send_text_to_user h w t) = bot_inputs w"
  "clock (send_text_to_user h w t) = clock w"
  by (simp_all add: send_text_to_user_def)

lemma send_text_outbox:
  "outbox (send_text_to_user h w t) = outbox (send_text_to_user h (w\<lparr>sessions := ss\<rparr>) t)"
  by (simp add: send_text_to_user_def)

lemma new_bot_message_fields [simp]:
  "sessions (new_bot_message h w m t) = sessions w"
  "participants (new_bot_message h w m t) = participants w"
  "triggers (new_bot_message h w m t) = triggers w"
  "bot_inputs (new_bot_message h w m t) = bot_inputs w"
  "clock (new_bot_message h w m t) = clock w"
  by (simp_all add: new_bot_message_def send_message_to_user_def reply_voice_message_def
      send_voice_to_user_def Let_def)














lemmas handler_defs =
  new_user_message_def new_user_message_impl_def ensure_sessions_exists_def
  latest_session_def matching_sessions_def is_reset_conversation_request_def
  is_message_type_supported_def should_handle_pre_conversation_requirements_def
  handle_pre_conversation_requirements_def add_message_to_history_def update_session_def
  update_status_def save_message_to_history_def chat_initiated_def ask_user_for_consent_def
  ask_user_to_take_survey_def start_conversation_def send_text_to_user_def
  create_new_experiment_session_def get_or_create_participant_def new_session_def
  enqueue_static_triggers_def generate_response_for_user_def call_bot_def new_bot_message_def
  send_message_to_user_def


lemma flow1: "status (sessions (after_messages [ascii ''Hi'']) ! 0) = PENDING"
  by (simp add: after_messages_def handler_defs example_defs survey_handler_def empty_world_def
      user_gave_consent_def strip_def isspace_def USER_CONSENT_TEXT_def ascii_def Let_def)

lemma flow_all:
  "map (\<lambda>ts. status (sessions (after_messages ts) ! 0))
     [[ascii ''Hi''], [ascii ''Hi'', ascii ''1''], [ascii ''Hi'', ascii ''1'', ascii ''Hi there''],
      [ascii ''Hi'', ascii ''1'', ascii ''Hi there'', ascii ''1'']] =
   [PENDING, PENDING_PRE_SURVEY, PENDING_PRE_SURVEY, ACTIVE]"
  by (simp add: after_messages_def handler_defs example_defs survey_handler_def empty_world_def
      example_survey_def survey_request_def py_format_def get_field_def field_special_def
      is_digit_def prepend_def lbrace_def rbrace_def example_bot_def has_human_message_def
      user_gave_consent_def strip_def isspace_def USER_CONSENT_TEXT_def ascii_def Let_def)

lemma flow_outbox:
  "outbox (after_messages [ascii ''Hi'', ascii ''1'', ascii ''Hi there'', ascii ''1'']) =
     [SentText (consent_request example_experiment),
      SentText (ascii ''Take the survey at https://survey/0 and reply 1''),
      SentText (ascii ''Take the survey at https://survey/0 and reply 1''),
      SentText (ascii ''OK'')]"
  by (simp add: after_messages_def handler_defs example_defs survey_handler_def empty_world_def
      example_survey_def survey_request_def py_format_def get_field_def field_special_def
      is_digit_def prepend_def lbrace_def rbrace_def example_bot_def has_human_message_def
      consent_request_def
      user_gave_consent_def strip_def isspace_def USER_CONSENT_TEXT_def ascii_def Let_def)








lemma call_bot_fields [simp]:
  "sessions (snd (call_bot tbot w sid i s)) =
     (sessions w)[sid := (sessions w ! sid)\<lparr>session_chat := snd (tbot (sessions w ! sid) i s)\<rparr>]"
  "participants (snd (call_bot tbot w sid i s)) = participants w"
  "triggers (snd (call_bot tbot w sid i s)) = triggers w"
  "clock (snd (call_bot tbot w sid i s)) = clock w"
  "outbox (snd (call_bot tbot w sid i s)) = outbox w"
  "fst (call_bot tbot w sid i s) = fst (tbot (sessions w ! sid) i s)"
  by (simp_all add: call_bot_def split: prod.splits)











text \<open>
  Where the cancellation comes from on the way of an ordinary message, and what the
  in-process runnable raises: the input is in the history, the partial output is not.
\<close>

lemma main_path_cancelled:
  assumes supp: "content_type m = Some TEXT" "TEXT \<in> set (supported_message_types h)"
    and platform: "platform (handler_channel h) \<noteq> WEB"
    and noreset: "\<not> is_reset_conversation_request h m"
    and noconsent: "\<not> conversational_consent_enabled (handler_experiment h)"
    and ens: "ensure_sessions_exists engaged h w m = (Inr sid, w1)"
    and w2: "w2 = enqueue_static_triggers (update_status w1 sid ACTIVE) sid NEW_HUMAN_MESSAGE"
    and cancel: "tbot (sessions w2 ! sid) (message_text m) True = (Inl (GenerationCancelled partial), c)"
  shows "new_user_message_impl engaged tbot h w m =
           (Inl (GenerationCancelled partial),
            (update_session w2 sid (\<lambda>s. s\<lparr>session_chat := c\<rparr>))
              \<lparr>bot_inputs := bot_inputs w2 @ [(sessions w2 ! sid, message_text m, True)]\<rparr>)"
  using assms
  by (simp add: new_user_message_impl_def is_message_type_supported_def Let_def
      handle_supported_message_def get_experiment_response_def call_bot_def)

lemma invoke_cancelled:
  assumes "build_prompt e s current_datetime (compress (messages (session_chat s))) input = Inr request"
    and "consume_stream r [] (stream provider) = (out, r')" and "cancelled r'"
  shows "experiment_runnable_invoke compress e s current_datetime provider r config input =
           (Inl (GenerationCancelled (ChainOutput out (callback_prompt_tokens provider)
                   (callback_completion_tokens provider))),
            (if save_input_to_history config
             then save_message_to_history (session_chat s) input HUMAN else session_chat s),
            r')"
  using assms by (simp add: experiment_runnable_invoke_def Let_def)

lemma consume_cancelled_stream:
  "consume_stream new_cancel_state [] cancelled_stream =
     (ascii ''The'', \<lparr>cancelled = True, last_cancel_check = Some 100, check_every_ms = 1000,
        flag_reads = 1\<rparr>)"
  by (simp add: cancelled_stream_def new_cancel_state_def chat_is_cancelled_def ascii_def)







end
